theory Spec2Isabelle
  imports Main "HOL-Library.Word"
begin

section \<open>JavaScript strings\<close>

text \<open>
  A JavaScript string is a sequence of 16-bit code units. The literals of the source are
  ASCII; \<open>js\<close> turns an ASCII literal into its code units.
\<close>

type_synonym jsstring = "16 word list"

definition js :: "string \<Rightarrow> jsstring" where
  "js s = map (\<lambda>c. of_nat (of_char c)) s"

text \<open>
  \<^verbatim>\<open>String.prototype.trim\<close> strips, from both ends, the code points that ECMAScript
  calls WhiteSpace (TAB, VT, FF, SP, NBSP, ZWNBSP and the category Zs) and LineTerminator
  (LF, CR, LS, PS). All of them are in the Basic Multilingual Plane, so each is one code unit.
\<close>

definition is_white_space :: "16 word \<Rightarrow> bool" where
  "is_white_space c \<longleftrightarrow>
     c = 0x0009 \<or> c = 0x000B \<or> c = 0x000C \<or> c = 0x0020 \<or> c = 0x00A0 \<or> c = 0xFEFF \<or>
     c = 0x1680 \<or> (0x2000 \<le> c \<and> c \<le> 0x200A) \<or> c = 0x202F \<or> c = 0x205F \<or> c = 0x3000"

definition is_line_terminator :: "16 word \<Rightarrow> bool" where
  "is_line_terminator c \<longleftrightarrow> c = 0x000A \<or> c = 0x000D \<or> c = 0x2028 \<or> c = 0x2029"

definition trimmable :: "16 word \<Rightarrow> bool" where
  "trimmable c \<longleftrightarrow> is_white_space c \<or> is_line_terminator c"

definition trim :: "jsstring \<Rightarrow> jsstring" where
  "trim s = rev (dropWhile trimmable (rev (dropWhile trimmable s)))"

text \<open>A string in a boolean position is true exactly when it is not empty.\<close>

definition truthy :: "jsstring \<Rightarrow> bool" where
  "truthy s \<longleftrightarrow> s \<noteq> []"

text \<open>
  \<^verbatim>\<open>`${n}`\<close> for a non-negative integer \<open>n\<close>: its decimal digits, no leading zero.
\<close>

definition digit :: "nat \<Rightarrow> 16 word" where
  "digit d = of_nat (48 + d)"

function decimal :: "nat \<Rightarrow> jsstring" where
  "decimal n = (if n < 10 then [digit n] else decimal (n div 10) @ [digit (n mod 10)])"
  by pat_completeness auto
termination
  by (relation "measure id") auto

declare decimal.simps [simp del]

section \<open>The request of \<^verbatim>\<open>lib/api.ts\<close>\<close>

text \<open>
  \<^verbatim>\<open>JSON.stringify\<close> on a string is ECMAScript's QuoteJSONString: the string between
  double quotes, with the seven single-character escapes, and \<^verbatim>\<open>\uXXXX\<close> (lowercase
  hexadecimal) for the other code units below SPACE and for every surrogate that is not
  part of a pair.
\<close>

definition hex_digit :: "nat \<Rightarrow> 16 word" where
  "hex_digit d = of_nat (if d < 10 then 48 + d else 87 + d)"

definition unicode_escape :: "16 word \<Rightarrow> jsstring" where
  "unicode_escape c =
     [0x5C, 0x75, hex_digit (unat c div 4096), hex_digit (unat c div 256 mod 16),
      hex_digit (unat c div 16 mod 16), hex_digit (unat c mod 16)]"

definition leading_surrogate :: "16 word \<Rightarrow> bool" where
  "leading_surrogate c \<longleftrightarrow> 0xD800 \<le> c \<and> c \<le> 0xDBFF"

definition trailing_surrogate :: "16 word \<Rightarrow> bool" where
  "trailing_surrogate c \<longleftrightarrow> 0xDC00 \<le> c \<and> c \<le> 0xDFFF"

definition quote_unit :: "16 word \<Rightarrow> jsstring" where
  "quote_unit c =
     (if c = 0x08 then [0x5C, 0x62]
      else if c = 0x09 then [0x5C, 0x74]
      else if c = 0x0A then [0x5C, 0x6E]
      else if c = 0x0C then [0x5C, 0x66]
      else if c = 0x0D then [0x5C, 0x72]
      else if c = 0x22 then [0x5C, 0x22]
      else if c = 0x5C then [0x5C, 0x5C]
      else if c < 0x20 \<or> leading_surrogate c \<or> trailing_surrogate c then unicode_escape c
      else [c])"

fun quote_units :: "jsstring \<Rightarrow> jsstring" where
  "quote_units [] = []"
| "quote_units [c] = quote_unit c"
| "quote_units (c # d # s) =
     (if leading_surrogate c \<and> trailing_surrogate d then c # d # quote_units s
      else quote_unit c @ quote_units (d # s))"

definition QuoteJSONString :: "jsstring \<Rightarrow> jsstring" where
  "QuoteJSONString s = [0x22] @ quote_units s @ [0x22]"

text \<open>
  Reading the quoted code units back, as a JSON parser reads a string: an escape gives
  the code unit it stands for, everything else stands for itself. It serves below to show
  that quoting loses nothing of the string.
\<close>

definition hex_value :: "16 word \<Rightarrow> nat" where
  "hex_value x = (if x \<le> 0x39 then unat x - 48 else unat x - 87)"

definition unescape :: "16 word \<Rightarrow> 16 word" where
  "unescape e =
     (if e = 0x62 then 0x08 else if e = 0x74 then 0x09 else if e = 0x6E then 0x0A
      else if e = 0x66 then 0x0C else if e = 0x72 then 0x0D else e)"

fun unquote_units :: "jsstring \<Rightarrow> jsstring" where
  "unquote_units (x # e # r) =
     (if x \<noteq> 0x5C then x # unquote_units (e # r)
      else if e \<noteq> 0x75 then unescape e # unquote_units r
      else (case r of
              a # b # c # d # r' \<Rightarrow>
                of_nat (hex_value a * 4096 + hex_value b * 256 + hex_value c * 16 + hex_value d)
                  # unquote_units r'
            | _ \<Rightarrow> []))"
| "unquote_units r = r"

text \<open>
  \<^verbatim>\<open>const API_URL = process.env.NEXT_PUBLIC_API_URL || "http://localhost:8000"\<close>:
  the setting of the environment is a parameter, absent (\<open>None\<close>) or a string, and
  \<^verbatim>\<open>||\<close> takes the default for an absent and for an empty one.
\<close>

definition API_URL :: "jsstring option \<Rightarrow> jsstring" where
  "API_URL env =
     (case env of
        None \<Rightarrow> js ''http://localhost:8000''
      | Some u \<Rightarrow> if truthy u then u else js ''http://localhost:8000'')"

datatype verb = GET | POST

record request =
  url :: jsstring
  http_method :: verb
  headers :: "(jsstring \<times> jsstring) list"
  body :: jsstring

text \<open>
  \<^verbatim>\<open>JSON.stringify({ message })\<close>: an object with the one key \<open>message\<close>, without
  white space.
\<close>

definition stringify_message :: "jsstring \<Rightarrow> jsstring" where
  "stringify_message message =
     [0x7B] @ QuoteJSONString (js ''message'') @ [0x3A] @ QuoteJSONString message @ [0x7D]"

text \<open>
  \<^verbatim>\<open>sendMessage\<close> is asynchronous. Up to its first \<^verbatim>\<open>await\<close> it calls
  \<^verbatim>\<open>fetch\<close>: \<open>sendMessage_fetch\<close> is that call. It goes on when the call settles:
  \<open>sendMessage_settled\<close>.
\<close>

definition sendMessage_fetch :: "jsstring option \<Rightarrow> jsstring \<Rightarrow> request" where
  "sendMessage_fetch env message =
     \<lparr> url = API_URL env @ js ''/api/chat'',
       http_method = POST,
       headers = [(js ''Content-Type'', js ''application/json'')],
       body = stringify_message message \<rparr>"

text \<open>
  What JavaScript throws is an instance of \<^verbatim>\<open>Error\<close>, which has a message, or any
  other value.
\<close>

datatype thrown = Error (message: jsstring) | Not_An_Error

text \<open>\<^verbatim>\<open>interface ChatResponse { response: string }\<close>\<close>

datatype ChatResponse = ChatResponse (response_of: jsstring)

text \<open>
  The answer to \<^verbatim>\<open>fetch\<close>: its promise rejects (the network fails), or resolves with
  a response, of which the code reads \<^verbatim>\<open>status\<close>, \<^verbatim>\<open>ok\<close> and
  \<^verbatim>\<open>json()\<close>. \<open>json\<close> is what \<^verbatim>\<open>res.json()\<close> settles to: it rejects when the
  body is not JSON; the value it resolves with has the type the source declares for it.
\<close>

record Response =
  status :: nat
  json :: "thrown + ChatResponse"

datatype fetched = Rejects thrown | Resolves Response

definition ok :: "Response \<Rightarrow> bool" where
  "ok res \<longleftrightarrow> 200 \<le> status res \<and> status res \<le> 299"

definition sendMessage_settled :: "fetched \<Rightarrow> thrown + ChatResponse" where
  "sendMessage_settled f =
     (case f of
        Rejects e \<Rightarrow> Inl e
      | Resolves res \<Rightarrow>
          if \<not> ok res then Inl (Error (js ''API error: '' @ decimal (status res)))
          else json res)"

section \<open>The page of \<^verbatim>\<open>app/page.tsx\<close>\<close>

text \<open>The four \<^verbatim>\<open>useState\<close> cells of the component \<^verbatim>\<open>Home\<close>.\<close>

record state =
  prompt :: jsstring
  response :: jsstring
  isLoading :: bool
  error :: jsstring

definition initial :: state where
  "initial = \<lparr> prompt = [], response = [], isLoading = False, error = [] \<rparr>"

text \<open>\<^verbatim>\<open>onChange={(e) => setPrompt(e.target.value)}\<close>\<close>

definition onChange :: "jsstring \<Rightarrow> state \<Rightarrow> state" where
  "onChange v s = s\<lparr>prompt := v\<rparr>"

text \<open>
  \<^verbatim>\<open>handleSubmit\<close> is asynchronous too. \<open>handleSubmit_begin\<close> is its run up to the
  \<^verbatim>\<open>await\<close>: the state it leaves and the call it has made, \<open>None\<close> when it returned
  at the guard (\<^verbatim>\<open>e.preventDefault()\<close> changes nothing here).
  \<open>handleSubmit_settled\<close> is the rest, run when the call has settled:
  \<^verbatim>\<open>try\<close>, \<^verbatim>\<open>catch\<close> and \<^verbatim>\<open>finally\<close>.
\<close>

definition handleSubmit_begin :: "jsstring option \<Rightarrow> state \<Rightarrow> state \<times> request option" where
  "handleSubmit_begin env s =
     (if \<not> truthy (trim (prompt s)) then (s, None)
      else (s\<lparr>isLoading := True, error := [], response := []\<rparr>,
            Some (sendMessage_fetch env (prompt s))))"

definition handleSubmit_settled :: "fetched \<Rightarrow> state \<Rightarrow> state" where
  "handleSubmit_settled f s =
     (case sendMessage_settled f of
        Inr result \<Rightarrow> s\<lparr>response := response_of result\<rparr>
      | Inl err \<Rightarrow>
          s\<lparr>error := (case err of Error m \<Rightarrow> m | Not_An_Error \<Rightarrow> js ''An error occurred'')\<rparr>)
     \<lparr>isLoading := False\<rparr>"

text \<open>
  One whole run of \<^verbatim>\<open>handleSubmit\<close> with nothing else in between: the state at the
  end and the calls made, \<open>f\<close> being how the call settles if one is made.
\<close>

definition handleSubmit :: "jsstring option \<Rightarrow> fetched \<Rightarrow> state \<Rightarrow> state \<times> request list" where
  "handleSubmit env f s =
     (case handleSubmit_begin env s of
        (s', None) \<Rightarrow> (s', [])
      | (s', Some r) \<Rightarrow> (handleSubmit_settled f s', [r]))"

text \<open>
  What \<^verbatim>\<open>Home\<close> renders, as far as it depends on the state: the input, the button,
  and the two cards, each present only when its text is not empty.
\<close>

record view =
  input_value :: jsstring
  input_disabled :: bool
  button_disabled :: bool
  button_label :: jsstring
  error_card :: "jsstring option"
  response_card :: "jsstring option"

definition Home :: "state \<Rightarrow> view" where
  "Home s =
     \<lparr> input_value = prompt s,
       input_disabled = isLoading s,
       button_disabled = (isLoading s \<or> \<not> truthy (trim (prompt s))),
       button_label = (if isLoading s then js ''Sending...'' else js ''Send''),
       error_card = (if truthy (error s) then Some (error s) else None),
       response_card = (if truthy (response s) then Some (response s) else None) \<rparr>"

section \<open>The page and its calls in flight\<close>

text \<open>
  The page together with the calls it has made that have not settled yet, the oldest first.
  Behind each of them a run of \<^verbatim>\<open>handleSubmit\<close> waits at its \<^verbatim>\<open>await\<close>.
\<close>

record world =
  page :: state
  in_flight :: "request list"

definition start :: world where
  "start = \<lparr> page = initial, in_flight = [] \<rparr>"

text \<open>\<open>invoke\<close> calls \<^verbatim>\<open>handleSubmit\<close>, whatever the page shows.\<close>

definition invoke :: "jsstring option \<Rightarrow> world \<Rightarrow> world" where
  "invoke env w =
     (case handleSubmit_begin env (page w) of
        (s', None) \<Rightarrow> w\<lparr>page := s'\<rparr>
      | (s', Some r) \<Rightarrow> w\<lparr>page := s', in_flight := in_flight w @ [r]\<rparr>)"

text \<open>
  What can happen to the rendered page: the user types into the input, which a browser
  allows on an input that is not disabled; the user submits the form, which a browser
  allows when the submit button is not disabled; the call at position \<open>i\<close> settles.
\<close>

datatype event = Type jsstring | Submit | Settle nat fetched

definition step :: "jsstring option \<Rightarrow> world \<Rightarrow> event \<Rightarrow> world" where
  "step env w ev =
     (case ev of
        Type v \<Rightarrow> if input_disabled (Home (page w)) then w else w\<lparr>page := onChange v (page w)\<rparr>
      | Submit \<Rightarrow> if button_disabled (Home (page w)) then w else invoke env w
      | Settle i f \<Rightarrow>
          if i < length (in_flight w)
          then w\<lparr>page := handleSubmit_settled f (page w),
                 in_flight := take i (in_flight w) @ drop (Suc i) (in_flight w)\<rparr>
          else w)"

definition run :: "jsstring option \<Rightarrow> event list \<Rightarrow> world" where
  "run env evs = foldl (step env) start evs"

section \<open>Quoting a string loses nothing\<close>

lemma nibbles_nat:
  "(n::nat) div 4096 * 4096 + n div 256 mod 16 * 256 + n div 16 mod 16 * 16 + n mod 16 = n"
proof -
  define q1 q2 q3 r0 r1 r2 where "q1 = n div 16" and "q2 = n div 256" and "q3 = n div 4096"
    and "r0 = n mod 16" and "r1 = n div 16 mod 16" and "r2 = n div 256 mod 16"
  have d: "n div 16 div 16 = n div 256" "n div 256 div 16 = n div 4096"
    by (simp_all add: div_mult2_eq[symmetric])
  have a: "q1 * 16 + r0 = n" by (simp add: q1_def r0_def)
  have "n div 16 div 16 * 16 + n div 16 mod 16 = n div 16" by simp
  then have b: "q2 * 16 + r1 = q1" by (simp add: d q1_def q2_def r1_def)
  have "n div 256 div 16 * 16 + n div 256 mod 16 = n div 256" by simp
  then have c: "q3 * 16 + r2 = q2" by (simp add: d q3_def q2_def r2_def)
  from a b c have "q3 * 4096 + r2 * 256 + r1 * 16 + r0 = n" by linarith
  then show ?thesis by (simp add: q3_def r0_def r1_def r2_def)
qed

lemma hex_value_digit: "d < 16 \<Longrightarrow> hex_value (hex_digit d) = d"
  by (simp add: hex_value_def hex_digit_def word_le_nat_alt unat_of_nat)

lemma unquote_literal: "x \<noteq> 0x5C \<Longrightarrow> unquote_units (x # r) = x # unquote_units r"
  by (cases r) simp_all

lemma unquote_escape:
  "e \<noteq> 0x75 \<Longrightarrow> unquote_units (0x5C # e # r) = unescape e # unquote_units r"
  by simp

lemma unquote_u:
  "unquote_units (0x5C # 0x75 # a # b # c # d # r) =
     of_nat (hex_value a * 4096 + hex_value b * 256 + hex_value c * 16 + hex_value d)
       # unquote_units r"
  by simp

lemma unquote_Nil: "unquote_units [] = []"
  by simp

declare unquote_units.simps [simp del]

lemma unquote_unicode_escape: "unquote_units (unicode_escape c @ r) = c # unquote_units r"
proof -
  have top: "unat c div 4096 < 16"
    using unsigned_less [of c, where ?'a = nat] by simp
  have "unquote_units (unicode_escape c @ r) =
      of_nat (unat c div 4096 * 4096 + unat c div 256 mod 16 * 256 +
              unat c div 16 mod 16 * 16 + unat c mod 16) # unquote_units r"
    by (simp only: unicode_escape_def append_Cons append_Nil unquote_u hex_value_digit top
        mod_less_divisor zero_less_numeral)
  then show ?thesis by (simp only: nibbles_nat of_nat_unat) simp
qed

lemma unquote_quote_unit: "unquote_units (quote_unit c @ r) = c # unquote_units r"
proof -
  consider "c = 0x08" | "c = 0x09" | "c = 0x0A" | "c = 0x0C" | "c = 0x0D" | "c = 0x22"
    | "c = 0x5C"
    | "c \<notin> {0x08, 0x09, 0x0A, 0x0C, 0x0D, 0x22, 0x5C}"
      "c < 0x20 \<or> leading_surrogate c \<or> trailing_surrogate c"
    | "c \<notin> {0x08, 0x09, 0x0A, 0x0C, 0x0D, 0x22, 0x5C}"
      "\<not> (c < 0x20 \<or> leading_surrogate c \<or> trailing_surrogate c)"
    by blast
  then show ?thesis
  proof cases
    case 8
    then have "quote_unit c = unicode_escape c" by (simp add: quote_unit_def)
    then show ?thesis by (simp add: unquote_unicode_escape)
  next
    case 9
    then have "quote_unit c = [c]" by (simp add: quote_unit_def)
    with 9 show ?thesis by (simp add: unquote_literal)
  qed (simp_all add: quote_unit_def unquote_escape unescape_def)
qed

lemma unquote_pair:
  "leading_surrogate c \<Longrightarrow> trailing_surrogate d \<Longrightarrow>
   unquote_units (c # d # r) = c # d # unquote_units r"
proof -
  assume "leading_surrogate c" and "trailing_surrogate d"
  then have "c \<noteq> 0x5C" and "d \<noteq> 0x5C"
    by (auto simp: leading_surrogate_def trailing_surrogate_def)
  then show ?thesis by (simp add: unquote_literal)
qed

lemma unquote_quote_units: "unquote_units (quote_units s) = s"
proof (induction s rule: quote_units.induct)
  case 1
  show ?case by (simp add: unquote_Nil)
next
  case (2 c)
  show ?case using unquote_quote_unit [of c "[]"] by (simp add: unquote_Nil)
next
  case (3 c d s)
  show ?case
  proof (cases "leading_surrogate c \<and> trailing_surrogate d")
    case True
    with 3 show ?thesis by (simp add: unquote_pair)
  next
    case False
    with 3 show ?thesis by (auto simp: unquote_quote_unit)
  qed
qed

lemma quote_units_inj: "quote_units s = quote_units t \<Longrightarrow> s = t"
  by (metis unquote_quote_units)

lemma stringify_message_inj: "stringify_message p = stringify_message q \<Longrightarrow> p = q"
  by (auto simp: stringify_message_def QuoteJSONString_def dest: quote_units_inj)

section \<open>Facts about the handler\<close>

lemma dropWhile_all_iff: "list_all P (dropWhile P xs) \<longleftrightarrow> list_all P xs"
  by (induction xs) auto

lemma trim_Nil_iff: "trim s = [] \<longleftrightarrow> list_all trimmable s"
proof -
  have "trim s = [] \<longleftrightarrow> list_all trimmable (rev (dropWhile trimmable s))"
    by (simp add: trim_def dropWhile_eq_Nil_conv list_all_iff)
  also have "\<dots> \<longleftrightarrow> list_all trimmable (dropWhile trimmable s)"
    by (simp add: list_all_iff)
  finally show ?thesis by (simp add: dropWhile_all_iff)
qed

lemma begin_blank: "trim (prompt s) = [] \<Longrightarrow> handleSubmit_begin env s = (s, None)"
  by (simp add: handleSubmit_begin_def truthy_def)

lemma begin_filled:
  "trim (prompt s) \<noteq> [] \<Longrightarrow>
   handleSubmit_begin env s =
     (s\<lparr>isLoading := True, error := [], response := []\<rparr>,
      Some (sendMessage_fetch env (prompt s)))"
  by (simp add: handleSubmit_begin_def truthy_def)

lemma settled_prompt: "prompt (handleSubmit_settled f s) = prompt s"
  by (simp add: handleSubmit_settled_def split: sum.split thrown.split)

lemma settled_isLoading: "isLoading (handleSubmit_settled f s) = False"
  by (simp add: handleSubmit_settled_def split: sum.split thrown.split)

lemma Home_input_disabled: "input_disabled (Home s) = isLoading s"
  by (simp add: Home_def)

lemma Home_button_disabled:
  "button_disabled (Home s) \<longleftrightarrow> isLoading s \<or> trim (prompt s) = []"
  by (simp add: Home_def truthy_def)

lemma Home_error_card: "error_card (Home s) = (if error s = [] then None else Some (error s))"
  by (simp add: Home_def truthy_def)

lemma Home_response_card:
  "response_card (Home s) = (if response s = [] then None else Some (response s))"
  by (simp add: Home_def truthy_def)

lemma settled_success:
  "sendMessage_settled f = Inr result \<Longrightarrow>
   handleSubmit_settled f s = s\<lparr>response := response_of result, isLoading := False\<rparr>"
  by (simp add: handleSubmit_settled_def)

lemma settled_failure:
  "sendMessage_settled f = Inl err \<Longrightarrow>
   handleSubmit_settled f s =
     s\<lparr>error := (case err of Error m \<Rightarrow> m | Not_An_Error \<Rightarrow> js ''An error occurred''),
       isLoading := False\<rparr>"
  by (simp add: handleSubmit_settled_def)

lemma handleSubmit_filled:
  "trim (prompt s) \<noteq> [] \<Longrightarrow>
   handleSubmit env f s =
     (handleSubmit_settled f (s\<lparr>isLoading := True, error := [], response := []\<rparr>),
      [sendMessage_fetch env (prompt s)])"
  by (simp add: handleSubmit_def begin_filled)

subsection \<open>What holds of the page however the user drives it\<close>

text \<open>
  At most one call is in flight; the loading flag is set exactly while one is; and while
  one is, the prompt is the one submitted and no response and no error is in the state.
\<close>

definition driven :: "world \<Rightarrow> bool" where
  "driven w \<longleftrightarrow>
     length (in_flight w) \<le> 1 \<and>
     isLoading (page w) = (in_flight w \<noteq> []) \<and>
     (in_flight w = [] \<or>
        trim (prompt (page w)) \<noteq> [] \<and> response (page w) = [] \<and> error (page w) = [])"

lemma driven_start: "driven start"
  by (simp add: driven_def start_def initial_def)

lemma driven_Type: "driven w \<Longrightarrow> driven (step env w (Type v))"
  by (auto simp: step_def driven_def Home_input_disabled onChange_def)

lemma driven_Submit: "driven w \<Longrightarrow> driven (step env w Submit)"
  by (auto simp: step_def driven_def Home_button_disabled invoke_def begin_filled)

lemma driven_Settle: "driven w \<Longrightarrow> driven (step env w (Settle i f))"
  by (cases "in_flight w") (auto simp: step_def driven_def settled_isLoading)

lemma driven_step: "driven w \<Longrightarrow> driven (step env w ev)"
  by (cases ev) (simp_all add: driven_Type driven_Submit driven_Settle)

lemma driven_foldl: "driven w \<Longrightarrow> driven (foldl (step env) w evs)"
  by (induction evs arbitrary: w) (simp_all add: driven_step)

lemma driven_run: "driven (run env evs)"
  by (simp add: run_def driven_foldl driven_start)

lemma api_error_nonempty: "js ''API error: '' @ decimal n \<noteq> []"
  by (simp add: js_def)

lemma sendMessage_not_ok:
  "\<not> ok res \<Longrightarrow>
   sendMessage_settled (Resolves res) = Inl (Error (js ''API error: '' @ decimal (status res)))"
  by (simp add: sendMessage_settled_def)

lemma sendMessage_ok: "ok res \<Longrightarrow> sendMessage_settled (Resolves res) = json res"
  by (simp add: sendMessage_settled_def)

lemmas eval_strings =
  js_def trim_def trimmable_def is_white_space_def is_line_terminator_def truthy_def

lemma filled_Hi: "trim (prompt (initial\<lparr>prompt := js ''Hi''\<rparr>)) \<noteq> []"
  by (simp add: initial_def eval_strings)

lemma run_Hi:
  "run None [Type (js ''Hi''), Submit] =
     \<lparr>page = \<lparr>prompt = js ''Hi'', response = [], isLoading = True, error = []\<rparr>,
      in_flight = [sendMessage_fetch None (js ''Hi'')]\<rparr>"
  by (simp add: initial_def start_def run_def step_def invoke_def Home_def onChange_def
      handleSubmit_begin_def eval_strings)

section \<open>The claims\<close>

text \<open>
  C1. When the trimmed prompt is not empty, one run of the submit handler makes exactly one
  call: a POST to \<^verbatim>\<open>/api/chat\<close> under the base URL, with the JSON content type, whose
  body is the object with the one key \<open>message\<close> and the prompt as it stands in the
  state, not trimmed. With no call in flight before, that call is the only one in flight
  after. The body carries the prompt whole: no other string has the same body.
\<close>

theorem submit_makes_one_post:
  assumes "trim (prompt s) \<noteq> []"
  shows "snd (handleSubmit env f s) =
           [\<lparr> url = API_URL env @ js ''/api/chat'', http_method = POST,
              headers = [(js ''Content-Type'', js ''application/json'')],
              body = [0x7B] @ QuoteJSONString (js ''message'') @ [0x3A] @
                     QuoteJSONString (prompt s) @ [0x7D] \<rparr>]
       \<and> in_flight (invoke env \<lparr>page = s, in_flight = []\<rparr>) = snd (handleSubmit env f s)
       \<and> (map body (snd (handleSubmit env f s)) = [stringify_message q] \<longrightarrow> q = prompt s)"
proof -
  have calls: "snd (handleSubmit env f s) = [sendMessage_fetch env (prompt s)]"
    using assms by (simp add: handleSubmit_filled)
  have one: "in_flight (invoke env \<lparr>page = s, in_flight = []\<rparr>) =
      [sendMessage_fetch env (prompt s)]"
    using assms by (simp add: invoke_def begin_filled)
  have whole: "map body [sendMessage_fetch env (prompt s)] = [stringify_message q]
      \<longrightarrow> q = prompt s"
    by (auto simp: sendMessage_fetch_def dest: stringify_message_inj)
  from calls one whole show ?thesis
    by (simp add: sendMessage_fetch_def stringify_message_def)
qed

theorem submit_makes_one_post_witness:
  "trim (prompt (initial\<lparr>prompt := js '' Hi ''\<rparr>)) \<noteq> []
   \<and> snd (handleSubmit None (Rejects Not_An_Error) (initial\<lparr>prompt := js '' Hi ''\<rparr>)) =
       [\<lparr> url = js ''http://localhost:8000/api/chat'', http_method = POST,
          headers = [(js ''Content-Type'', js ''application/json'')],
          body = [0x7B, 0x22] @ js ''message'' @ [0x22, 0x3A, 0x22] @ js '' Hi '' @
                 [0x22, 0x7D] \<rparr>]"
proof -
  have h: "trim (prompt (initial\<lparr>prompt := js '' Hi ''\<rparr>)) \<noteq> []"
    by (simp add: initial_def eval_strings)
  show ?thesis
    using h submit_makes_one_post [OF h, of None "Rejects Not_An_Error"]
    by (simp add: initial_def API_URL_def QuoteJSONString_def quote_unit_def
        leading_surrogate_def trailing_surrogate_def js_def)
qed

text \<open>
  C2. When the prompt is empty or has only white space, a run of the submit handler
  returns at its guard: it makes no call and leaves the state, with the loading flag, the
  response and the error, as it was.
\<close>

theorem blank_prompt_makes_no_call:
  "list_all trimmable (prompt s) \<Longrightarrow>
   handleSubmit_begin env s = (s, None) \<and> handleSubmit env f s = (s, [])"
  by (simp add: handleSubmit_def begin_blank trim_Nil_iff)

theorem blank_prompt_makes_no_call_witness:
  "list_all trimmable (prompt (initial\<lparr>prompt := [0x20, 0x09, 0x0A, 0xA0]\<rparr>))
   \<and> handleSubmit None (Rejects Not_An_Error) (initial\<lparr>prompt := [0x20, 0x09, 0x0A, 0xA0]\<rparr>) =
       (initial\<lparr>prompt := [0x20, 0x09, 0x0A, 0xA0]\<rparr>, [])"
proof -
  have h: "list_all trimmable (prompt (initial\<lparr>prompt := [0x20, 0x09, 0x0A, 0xA0]\<rparr>))"
    by (simp add: initial_def eval_strings)
  show ?thesis
    using h blank_prompt_makes_no_call [OF h, of None "Rejects Not_An_Error"] by simp
qed

text \<open>
  C9. A submission never writes the prompt: neither the run up to the call, nor the run
  after the call has settled, nor the two together change it. The other three cells
  (loading flag, response, error) are the only ones the handler sets.
\<close>

theorem submit_keeps_prompt:
  "prompt (fst (handleSubmit_begin env s)) = prompt s \<and>
   prompt (handleSubmit_settled f s) = prompt s \<and>
   prompt (fst (handleSubmit env f s)) = prompt s"
  by (simp add: handleSubmit_def handleSubmit_begin_def settled_prompt
      split: prod.split option.split)

text \<open>
  C3. A submission with a non-blank prompt sets the loading flag and disables the button
  when it makes its call, and however the call settles, the flag is off and the button is
  enabled again afterwards. On the page as the user drives it, whenever a call is in
  flight the flag is on and the button disabled, and when that call settles, by resolving
  or by rejecting, nothing is in flight, the flag is off and the button is enabled.
\<close>

theorem loading_while_in_flight:
  "(trim (prompt s) \<noteq> [] \<longrightarrow>
      isLoading (fst (handleSubmit_begin env s)) \<and>
      button_disabled (Home (fst (handleSubmit_begin env s))) \<and>
      \<not> isLoading (fst (handleSubmit env f s)) \<and>
      \<not> button_disabled (Home (fst (handleSubmit env f s))))
   \<and> (in_flight (run env evs) \<noteq> [] \<longrightarrow>
        isLoading (page (run env evs)) \<and> button_disabled (Home (page (run env evs))))
   \<and> (i < length (in_flight (run env evs)) \<longrightarrow>
        in_flight (step env (run env evs) (Settle i f)) = [] \<and>
        \<not> isLoading (page (step env (run env evs) (Settle i f))) \<and>
        \<not> button_disabled (Home (page (step env (run env evs) (Settle i f)))))"
proof -
  have a: "trim (prompt s) \<noteq> [] \<longrightarrow>
      isLoading (fst (handleSubmit_begin env s)) \<and>
      button_disabled (Home (fst (handleSubmit_begin env s))) \<and>
      \<not> isLoading (fst (handleSubmit env f s)) \<and>
      \<not> button_disabled (Home (fst (handleSubmit env f s)))"
    by (simp add: handleSubmit_def begin_filled Home_button_disabled settled_isLoading
        settled_prompt)
  have inv: "driven (run env evs)" by (rule driven_run)
  have b: "in_flight (run env evs) \<noteq> [] \<longrightarrow>
        isLoading (page (run env evs)) \<and> button_disabled (Home (page (run env evs)))"
    using inv by (simp add: driven_def Home_button_disabled)
  have c: "i < length (in_flight (run env evs)) \<longrightarrow>
        in_flight (step env (run env evs) (Settle i f)) = [] \<and>
        \<not> isLoading (page (step env (run env evs) (Settle i f))) \<and>
        \<not> button_disabled (Home (page (step env (run env evs) (Settle i f))))"
  proof
    assume i: "i < length (in_flight (run env evs))"
    with inv have i0: "i = 0" and len: "length (in_flight (run env evs)) = 1"
      and p: "trim (prompt (page (run env evs))) \<noteq> []"
      by (auto simp: driven_def)
    from len show "in_flight (step env (run env evs) (Settle i f)) = [] \<and>
        \<not> isLoading (page (step env (run env evs) (Settle i f))) \<and>
        \<not> button_disabled (Home (page (step env (run env evs) (Settle i f))))"
      using p by (simp add: step_def i0 Home_button_disabled settled_isLoading settled_prompt)
  qed
  from a b c show ?thesis by blast
qed

theorem loading_while_in_flight_witness:
  "trim (prompt (initial\<lparr>prompt := js ''Hi''\<rparr>)) \<noteq> []
   \<and> isLoading (fst (handleSubmit_begin None (initial\<lparr>prompt := js ''Hi''\<rparr>)))
   \<and> \<not> isLoading (fst (handleSubmit None (Rejects Not_An_Error) (initial\<lparr>prompt := js ''Hi''\<rparr>)))
   \<and> in_flight (run None [Type (js ''Hi''), Submit]) \<noteq> []
   \<and> button_disabled (Home (page (run None [Type (js ''Hi''), Submit])))
   \<and> (0::nat) < length (in_flight (run None [Type (js ''Hi''), Submit]))
   \<and> \<not> button_disabled (Home (page (step None (run None [Type (js ''Hi''), Submit])
         (Settle 0 (Rejects Not_An_Error)))))"
proof -
  have h2: "in_flight (run None [Type (js ''Hi''), Submit]) \<noteq> []"
    by (simp add: run_Hi)
  have h3: "(0::nat) < length (in_flight (run None [Type (js ''Hi''), Submit]))"
    by (simp add: run_Hi)
  show ?thesis
    using filled_Hi h2 h3
      loading_while_in_flight [where s = "initial\<lparr>prompt := js ''Hi''\<rparr>" and env = None
          and f = "Rejects Not_An_Error" and evs = "[Type (js ''Hi''), Submit]" and i = 0]
    by blast
qed

text \<open>
  C4, as the code has it. The handler's only guard is the prompt: it makes a call exactly
  when the trimmed prompt is not empty, and does not read the loading flag. The gate is the
  submit button, disabled while the flag is on: a submit on a loading page changes
  nothing, so on the page as the user drives it a submit while a call is in flight makes no
  call, and never are two calls in flight.
\<close>

theorem submit_gated_by_button:
  "(snd (handleSubmit_begin env s) = None \<longleftrightarrow> trim (prompt s) = [])
   \<and> (isLoading (page w) \<longrightarrow> step env w Submit = w)
   \<and> (in_flight (run env evs) \<noteq> [] \<longrightarrow> step env (run env evs) Submit = run env evs)
   \<and> length (in_flight (run env evs)) \<le> 1"
proof -
  have inv: "driven (run env evs)" by (rule driven_run)
  have a: "snd (handleSubmit_begin env s) = None \<longleftrightarrow> trim (prompt s) = []"
    by (simp add: handleSubmit_begin_def truthy_def)
  have b: "isLoading (page w) \<longrightarrow> step env w Submit = w" for w
    by (simp add: step_def Home_button_disabled)
  have c: "in_flight (run env evs) \<noteq> [] \<longrightarrow> step env (run env evs) Submit = run env evs"
    using inv b by (simp add: driven_def)
  have d: "length (in_flight (run env evs)) \<le> 1"
    using inv by (simp add: driven_def)
  from a b c d show ?thesis by blast
qed

theorem submit_gated_by_button_witness:
  "isLoading (page (run None [Type (js ''Hi''), Submit]))
   \<and> in_flight (run None [Type (js ''Hi''), Submit]) \<noteq> []
   \<and> step None (run None [Type (js ''Hi''), Submit]) Submit = run None [Type (js ''Hi''), Submit]
   \<and> run None [Type (js ''Hi''), Submit, Submit] = run None [Type (js ''Hi''), Submit]"
proof -
  have h1: "isLoading (page (run None [Type (js ''Hi''), Submit]))"
    by (simp add: run_Hi)
  have h2: "in_flight (run None [Type (js ''Hi''), Submit]) \<noteq> []"
    by (simp add: run_Hi)
  have "step None (run None [Type (js ''Hi''), Submit]) Submit = run None [Type (js ''Hi''), Submit]"
    using h1 h2
      submit_gated_by_button [where env = None and w = "run None [Type (js ''Hi''), Submit]"
          and evs = "[Type (js ''Hi''), Submit]"]
    by blast
  moreover have "run None [Type (js ''Hi''), Submit, Submit]
      = step None (run None [Type (js ''Hi''), Submit]) Submit"
    by (simp add: run_def)
  ultimately show ?thesis using h1 h2 by simp
qed

text \<open>
  C4, as the claim has it, fails: called on a page that is loading, with the prompt
  \<open>Hi\<close>, the handler makes a second call, and two calls are in flight.
\<close>

theorem handler_not_gated_by_loading:
  "isLoading (page (invoke None \<lparr>page = initial\<lparr>prompt := js ''Hi''\<rparr>, in_flight = []\<rparr>))
   \<and> in_flight (invoke None
        (invoke None \<lparr>page = initial\<lparr>prompt := js ''Hi''\<rparr>, in_flight = []\<rparr>))
       = [sendMessage_fetch None (js ''Hi''), sendMessage_fetch None (js ''Hi'')]"
  by (simp add: initial_def invoke_def handleSubmit_begin_def eval_strings)

text \<open>
  C8. A submission with a non-blank prompt has, when it makes its call and before the call
  settles, set the loading flag and reset the response and the error to the empty string,
  so neither card is rendered. On the page as the user drives it, this holds for as long
  as the call is in flight.
\<close>

theorem submit_loads_and_clears:
  "(trim (prompt s) \<noteq> [] \<longrightarrow>
      snd (handleSubmit_begin env s) = Some (sendMessage_fetch env (prompt s)) \<and>
      isLoading (fst (handleSubmit_begin env s)) \<and>
      response (fst (handleSubmit_begin env s)) = [] \<and>
      error (fst (handleSubmit_begin env s)) = [] \<and>
      response_card (Home (fst (handleSubmit_begin env s))) = None \<and>
      error_card (Home (fst (handleSubmit_begin env s))) = None)
   \<and> (in_flight (run env evs) \<noteq> [] \<longrightarrow>
        isLoading (page (run env evs)) \<and>
        response_card (Home (page (run env evs))) = None \<and>
        error_card (Home (page (run env evs))) = None)"
proof -
  have a: "trim (prompt s) \<noteq> [] \<longrightarrow>
      snd (handleSubmit_begin env s) = Some (sendMessage_fetch env (prompt s)) \<and>
      isLoading (fst (handleSubmit_begin env s)) \<and>
      response (fst (handleSubmit_begin env s)) = [] \<and>
      error (fst (handleSubmit_begin env s)) = [] \<and>
      response_card (Home (fst (handleSubmit_begin env s))) = None \<and>
      error_card (Home (fst (handleSubmit_begin env s))) = None"
    by (simp add: begin_filled Home_response_card Home_error_card)
  have "driven (run env evs)" by (rule driven_run)
  then have b: "in_flight (run env evs) \<noteq> [] \<longrightarrow>
        isLoading (page (run env evs)) \<and>
        response_card (Home (page (run env evs))) = None \<and>
        error_card (Home (page (run env evs))) = None"
    by (auto simp: driven_def Home_response_card Home_error_card)
  from a b show ?thesis by blast
qed

theorem submit_loads_and_clears_witness:
  "trim (prompt \<lparr>prompt = js ''Hi'', response = js ''old'', isLoading = False,
                  error = js ''bad''\<rparr>) \<noteq> []
   \<and> fst (handleSubmit_begin None
        \<lparr>prompt = js ''Hi'', response = js ''old'', isLoading = False, error = js ''bad''\<rparr>) =
       \<lparr>prompt = js ''Hi'', response = [], isLoading = True, error = []\<rparr>
   \<and> in_flight (run None [Type (js ''Hi''), Submit]) \<noteq> []
   \<and> response_card (Home (page (run None [Type (js ''Hi''), Submit]))) = None"
proof -
  have h1: "trim (prompt \<lparr>prompt = js ''Hi'', response = js ''old'', isLoading = False,
      error = js ''bad''\<rparr>) \<noteq> []"
    by (simp add: eval_strings)
  have h2: "in_flight (run None [Type (js ''Hi''), Submit]) \<noteq> []"
    by (simp add: run_Hi)
  have "prompt (fst (handleSubmit_begin None
      \<lparr>prompt = js ''Hi'', response = js ''old'', isLoading = False, error = js ''bad''\<rparr>))
      = js ''Hi''"
    by (simp add: handleSubmit_begin_def)
  then show ?thesis
    using h1 h2
      submit_loads_and_clears [where env = None and evs = "[Type (js ''Hi''), Submit]"
          and s = "\<lparr>prompt = js ''Hi'', response = js ''old'', isLoading = False,
                    error = js ''bad''\<rparr>"]
    by (cases "fst (handleSubmit_begin None
      \<lparr>prompt = js ''Hi'', response = js ''old'', isLoading = False, error = js ''bad''\<rparr>)")
       simp
qed

text \<open>
  C6. For a response whose status is outside 200..299, \<^verbatim>\<open>sendMessage\<close> throws an
  \<^verbatim>\<open>Error\<close> with the message \<open>API error: \<close> and the status in decimal. The
  submission then ends with that message, which is not empty, in the error card, and with
  no response card, whatever response the page showed before.
\<close>

theorem non_2xx_shows_error:
  assumes "status res < 200 \<or> 299 < status res" and "trim (prompt s) \<noteq> []"
  shows "sendMessage_settled (Resolves res) =
           Inl (Error (js ''API error: '' @ decimal (status res)))
       \<and> error_card (Home (fst (handleSubmit env (Resolves res) s))) =
           Some (js ''API error: '' @ decimal (status res))
       \<and> js ''API error: '' @ decimal (status res) \<noteq> []
       \<and> response_card (Home (fst (handleSubmit env (Resolves res) s))) = None"
proof -
  from assms(1) have nok: "\<not> ok res" by (auto simp: ok_def)
  then have thrown: "sendMessage_settled (Resolves res) =
      Inl (Error (js ''API error: '' @ decimal (status res)))"
    by (rule sendMessage_not_ok)
  have nonempty: "js ''API error: '' @ decimal (status res) \<noteq> []"
    by (rule api_error_nonempty)
  have final: "fst (handleSubmit env (Resolves res) s) =
      s\<lparr>isLoading := False, error := js ''API error: '' @ decimal (status res), response := []\<rparr>"
    using assms(2) by (simp add: handleSubmit_filled settled_failure [OF thrown])
  have shown: "error_card (Home (fst (handleSubmit env (Resolves res) s))) =
      Some (js ''API error: '' @ decimal (status res))"
    using nonempty by (simp only: final Home_error_card) simp
  have hidden: "response_card (Home (fst (handleSubmit env (Resolves res) s))) = None"
    by (simp add: final Home_response_card)
  from thrown shown nonempty hidden show ?thesis by blast
qed

theorem non_2xx_shows_error_witness:
  "((500::nat) < 200 \<or> (299::nat) < 500)
   \<and> trim (prompt \<lparr>prompt = js ''Hi'', response = js ''old'', isLoading = False,
                    error = []\<rparr>) \<noteq> []
   \<and> error_card (Home (fst (handleSubmit None
        (Resolves \<lparr>status = 500, json = Inl Not_An_Error\<rparr>)
        \<lparr>prompt = js ''Hi'', response = js ''old'', isLoading = False, error = []\<rparr>))) =
       Some (js ''API error: 500'')
   \<and> response_card (Home (fst (handleSubmit None
        (Resolves \<lparr>status = 500, json = Inl Not_An_Error\<rparr>)
        \<lparr>prompt = js ''Hi'', response = js ''old'', isLoading = False, error = []\<rparr>))) = None"
proof -
  have h1: "status \<lparr>status = 500, json = Inl Not_An_Error\<rparr> < 200
      \<or> 299 < status \<lparr>status = 500, json = Inl Not_An_Error\<rparr>"
    by simp
  have h2: "trim (prompt \<lparr>prompt = js ''Hi'', response = js ''old'', isLoading = False,
      error = []\<rparr>) \<noteq> []"
    by (simp add: eval_strings)
  have d: "decimal 500 = js ''500''"
    by (simp add: decimal.simps js_def digit_def)
  show ?thesis
    using h2 non_2xx_shows_error [OF h1 h2, of None] by (simp add: d js_def)
qed

text \<open>
  C10. A call that resolves with a status in 200..299 and a body whose \<open>response\<close> is the
  empty string ends the submission not loading, with no response card and no error card:
  the state is the one the submission had cleared, with the loading flag off.
\<close>

theorem empty_success_shows_nothing:
  assumes "200 \<le> status res" and "status res \<le> 299"
    and "json res = Inr (ChatResponse [])" and "trim (prompt s) \<noteq> []"
  shows "fst (handleSubmit env (Resolves res) s) =
           s\<lparr>isLoading := False, error := [], response := []\<rparr>
       \<and> \<not> isLoading (fst (handleSubmit env (Resolves res) s))
       \<and> response_card (Home (fst (handleSubmit env (Resolves res) s))) = None
       \<and> error_card (Home (fst (handleSubmit env (Resolves res) s))) = None"
proof -
  from assms(1,2) have "ok res" by (simp add: ok_def)
  with assms(3) have "sendMessage_settled (Resolves res) = Inr (ChatResponse [])"
    by (simp add: sendMessage_ok)
  then have "fst (handleSubmit env (Resolves res) s) =
      s\<lparr>isLoading := False, error := [], response := []\<rparr>"
    using assms(4) by (simp add: handleSubmit_filled settled_success)
  then show ?thesis by (simp add: Home_response_card Home_error_card)
qed

theorem empty_success_shows_nothing_witness:
  "(200::nat) \<le> 200 \<and> (200::nat) \<le> 299
   \<and> trim (prompt (initial\<lparr>prompt := js ''Hi''\<rparr>)) \<noteq> []
   \<and> fst (handleSubmit None (Resolves \<lparr>status = 200, json = Inr (ChatResponse [])\<rparr>)
        (initial\<lparr>prompt := js ''Hi''\<rparr>)) = initial\<lparr>prompt := js ''Hi''\<rparr>
   \<and> response_card (Home (fst (handleSubmit None
        (Resolves \<lparr>status = 200, json = Inr (ChatResponse [])\<rparr>)
        (initial\<lparr>prompt := js ''Hi''\<rparr>)))) = None
   \<and> error_card (Home (fst (handleSubmit None
        (Resolves \<lparr>status = 200, json = Inr (ChatResponse [])\<rparr>)
        (initial\<lparr>prompt := js ''Hi''\<rparr>)))) = None"
proof -
  have h1: "200 \<le> status \<lparr>status = 200, json = Inr (ChatResponse [])\<rparr>" by simp
  have h2: "status \<lparr>status = 200, json = Inr (ChatResponse [])\<rparr> \<le> 299" by simp
  have h3: "json \<lparr>status = 200, json = Inr (ChatResponse [])\<rparr> = Inr (ChatResponse [])"
    by simp
  have same: "initial\<lparr>prompt := js ''Hi''\<rparr>\<lparr>isLoading := False, error := [], response := []\<rparr>
      = initial\<lparr>prompt := js ''Hi''\<rparr>"
    by (simp add: initial_def)
  have bounds: "(200::nat) \<le> 200 \<and> (200::nat) \<le> 299" by simp
  from bounds filled_Hi
    empty_success_shows_nothing [OF h1 h2 h3 filled_Hi, of None, unfolded same]
  show ?thesis by blast
qed

text \<open>
  C5, as the code has it. After a submission with a non-blank prompt the page never shows
  both cards. When the call succeeds, the error card is absent and the response card holds
  the returned text, unless that text is empty: then it is absent too. When the call
  fails, the response card is absent and the error card holds the message of the error
  thrown, unless that message is empty, or \<open>An error occurred\<close> when what was thrown is
  not an \<^verbatim>\<open>Error\<close>.
\<close>

theorem one_card_at_most:
  assumes "trim (prompt s) \<noteq> []"
  shows "(error_card (Home (fst (handleSubmit env f s))) = None \<or>
          response_card (Home (fst (handleSubmit env f s))) = None)
       \<and> (case sendMessage_settled f of
             Inr result \<Rightarrow>
               error_card (Home (fst (handleSubmit env f s))) = None \<and>
               response_card (Home (fst (handleSubmit env f s))) =
                 (if response_of result = [] then None else Some (response_of result))
           | Inl (Error m) \<Rightarrow>
               response_card (Home (fst (handleSubmit env f s))) = None \<and>
               error_card (Home (fst (handleSubmit env f s))) =
                 (if m = [] then None else Some m)
           | Inl Not_An_Error \<Rightarrow>
               response_card (Home (fst (handleSubmit env f s))) = None \<and>
               error_card (Home (fst (handleSubmit env f s))) = Some (js ''An error occurred''))"
proof (cases "sendMessage_settled f")
  case (Inr result)
  then show ?thesis
    using assms
    by (simp add: handleSubmit_filled settled_success Home_response_card Home_error_card)
next
  case (Inl err)
  then show ?thesis
    using assms
    by (cases err)
       (simp_all add: handleSubmit_filled settled_failure Home_response_card Home_error_card
         js_def)
qed

theorem one_card_at_most_witness:
  "trim (prompt (initial\<lparr>prompt := js ''Hi''\<rparr>)) \<noteq> []
   \<and> response_card (Home (fst (handleSubmit None (Rejects (Error (js ''Failed to fetch'')))
        (initial\<lparr>prompt := js ''Hi''\<rparr>)))) = None
   \<and> error_card (Home (fst (handleSubmit None (Rejects (Error (js ''Failed to fetch'')))
        (initial\<lparr>prompt := js ''Hi''\<rparr>)))) = Some (js ''Failed to fetch'')"
proof -
  have thrown: "sendMessage_settled (Rejects (Error (js ''Failed to fetch''))) =
      Inl (Error (js ''Failed to fetch''))"
    by (simp add: sendMessage_settled_def)
  have nonempty: "js ''Failed to fetch'' \<noteq> []"
    by (simp add: js_def)
  show ?thesis
    using filled_Hi nonempty
      one_card_at_most [OF filled_Hi, of None "Rejects (Error (js ''Failed to fetch''))"]
    by (simp add: thrown)
qed

text \<open>
  C5, as the claim has it, fails: a submission of the prompt \<open>Hi\<close> whose call resolves
  with status 200 and the response text empty has made its call and is over, and the page
  shows neither card.
\<close>

theorem empty_response_shows_neither:
  "snd (handleSubmit None (Resolves \<lparr>status = 200, json = Inr (ChatResponse [])\<rparr>)
        (initial\<lparr>prompt := js ''Hi''\<rparr>)) = [sendMessage_fetch None (js ''Hi'')]
   \<and> \<not> isLoading (fst (handleSubmit None
        (Resolves \<lparr>status = 200, json = Inr (ChatResponse [])\<rparr>)
        (initial\<lparr>prompt := js ''Hi''\<rparr>)))
   \<and> response_card (Home (fst (handleSubmit None
        (Resolves \<lparr>status = 200, json = Inr (ChatResponse [])\<rparr>)
        (initial\<lparr>prompt := js ''Hi''\<rparr>)))) = None
   \<and> error_card (Home (fst (handleSubmit None
        (Resolves \<lparr>status = 200, json = Inr (ChatResponse [])\<rparr>)
        (initial\<lparr>prompt := js ''Hi''\<rparr>)))) = None"
  by (simp add: initial_def handleSubmit_def handleSubmit_begin_def handleSubmit_settled_def
      sendMessage_settled_def ok_def Home_def eval_strings)

text \<open>
  C7, as the code has it. When the call resolves with a status in 200..299 and the body
  \<open>{response: t}\<close>, the state holds \<open>t\<close> as it came. For every \<open>t\<close> that is not empty
  the response card holds exactly \<open>t\<close>, white space and line breaks included (the card's
  paragraph is styled \<^verbatim>\<open>whitespace-pre-wrap\<close>), and no error card is rendered. For the
  empty \<open>t\<close> no response card is rendered.
\<close>

theorem response_text_shown:
  assumes "200 \<le> status res" and "status res \<le> 299"
    and "json res = Inr (ChatResponse t)" and "trim (prompt s) \<noteq> []"
  shows "response (fst (handleSubmit env (Resolves res) s)) = t
       \<and> (t \<noteq> [] \<longrightarrow>
            response_card (Home (fst (handleSubmit env (Resolves res) s))) = Some t)
       \<and> (t = [] \<longrightarrow>
            response_card (Home (fst (handleSubmit env (Resolves res) s))) = None)
       \<and> error_card (Home (fst (handleSubmit env (Resolves res) s))) = None"
proof -
  from assms(1,2) have "ok res" by (simp add: ok_def)
  with assms(3) have "sendMessage_settled (Resolves res) = Inr (ChatResponse t)"
    by (simp add: sendMessage_ok)
  then have "fst (handleSubmit env (Resolves res) s) =
      s\<lparr>isLoading := False, error := [], response := t\<rparr>"
    using assms(4) by (simp add: handleSubmit_filled settled_success)
  then show ?thesis by (simp add: Home_response_card Home_error_card)
qed

theorem response_text_shown_witness:
  "(200::nat) \<le> 200 \<and> (200::nat) \<le> 299
   \<and> trim (prompt (initial\<lparr>prompt := js ''Hi''\<rparr>)) \<noteq> []
   \<and> js ''Paris is  lovely'' @ [0x0A] \<noteq> []
   \<and> response_card (Home (fst (handleSubmit None
        (Resolves \<lparr>status = 200, json = Inr (ChatResponse (js ''Paris is  lovely'' @ [0x0A]))\<rparr>)
        (initial\<lparr>prompt := js ''Hi''\<rparr>)))) = Some (js ''Paris is  lovely'' @ [0x0A])"
proof -
  have h1: "200 \<le> status \<lparr>status = 200,
      json = Inr (ChatResponse (js ''Paris is  lovely'' @ [0x0A]))\<rparr>"
    by simp
  have h2: "status \<lparr>status = 200,
      json = Inr (ChatResponse (js ''Paris is  lovely'' @ [0x0A]))\<rparr> \<le> 299"
    by simp
  have h3: "json \<lparr>status = 200, json = Inr (ChatResponse (js ''Paris is  lovely'' @ [0x0A]))\<rparr>
      = Inr (ChatResponse (js ''Paris is  lovely'' @ [0x0A]))"
    by simp
  have nonempty: "js ''Paris is  lovely'' @ [0x0A] \<noteq> []" by simp
  have bounds: "(200::nat) \<le> 200 \<and> (200::nat) \<le> 299" by simp
  from bounds filled_Hi nonempty response_text_shown [OF h1 h2 h3 filled_Hi, of None]
  show ?thesis by blast
qed

text \<open>
  C7, as the claim has it, fails at the empty text: the call resolves with status 200 and
  \<open>{response: ""}\<close>, and the page renders no response card, where the claim has it show
  the returned string.
\<close>

theorem empty_text_not_shown:
  "response_card (Home (fst (handleSubmit None
      (Resolves \<lparr>status = 200, json = Inr (ChatResponse [])\<rparr>)
      \<lparr>prompt = js ''Paris?'', response = [], isLoading = False, error = []\<rparr>))) \<noteq> Some []
   \<and> response_card (Home (fst (handleSubmit None
      (Resolves \<lparr>status = 200, json = Inr (ChatResponse [])\<rparr>)
      \<lparr>prompt = js ''Paris?'', response = [], isLoading = False, error = []\<rparr>))) = None"
  by (simp add: handleSubmit_def handleSubmit_begin_def handleSubmit_settled_def
      sendMessage_settled_def ok_def Home_def eval_strings)

end
